theory Spec2Isabelle
  imports Complex_Main
begin

section \<open>JavaScript values\<close>

text \<open>
  A JavaScript number is either \<open>NaN\<close> or a finite number. A finite number is an exact
  real: rounding, overflow to an infinite value and the sign of zero are not part of
  this development. \<open>NaN\<close> is kept because \<open>parseFloat\<close> returns it for text that
  does not start with a number, and the store turns it into NULL.
\<close>

datatype jsnum = NaN | Fin real

fun js_add :: "jsnum \<Rightarrow> jsnum \<Rightarrow> jsnum" where
  "js_add (Fin a) (Fin b) = Fin (a + b)"
| "js_add _ _ = NaN"

fun js_sub :: "jsnum \<Rightarrow> jsnum \<Rightarrow> jsnum" where
  "js_sub (Fin a) (Fin b) = Fin (a - b)"
| "js_sub _ _ = NaN"

fun js_mul :: "jsnum \<Rightarrow> jsnum \<Rightarrow> jsnum" where
  "js_mul (Fin a) (Fin b) = Fin (a * b)"
| "js_mul _ _ = NaN"

fun js_abs :: "jsnum \<Rightarrow> jsnum" where
  "js_abs (Fin a) = Fin \<bar>a\<bar>"
| "js_abs NaN = NaN"

text \<open>Every comparison with \<open>NaN\<close> is false.\<close>

fun js_gt :: "jsnum \<Rightarrow> jsnum \<Rightarrow> bool" where
  "js_gt (Fin a) (Fin b) = (a > b)"
| "js_gt _ _ = False"

fun js_le :: "jsnum \<Rightarrow> jsnum \<Rightarrow> bool" where
  "js_le (Fin a) (Fin b) = (a \<le> b)"
| "js_le _ _ = False"

text \<open>
  The values a parsed document or a spreadsheet row is made of. An object is the list
  of its properties in order; a string is a list of 8-bit characters (a character
  outside ASCII is its UTF-8 bytes).
\<close>

datatype jsval =
    Undefined
  | Null
  | JBool bool
  | JNum jsnum
  | JStr string
  | JArr "jsval list"
  | JObj "(string \<times> jsval) list"

fun truthy :: "jsval \<Rightarrow> bool" where
  "truthy Undefined = False"
| "truthy Null = False"
| "truthy (JBool b) = b"
| "truthy (JNum NaN) = False"
| "truthy (JNum (Fin r)) = (r \<noteq> 0)"
| "truthy (JStr s) = (s \<noteq> [])"
| "truthy (JArr _) = True"
| "truthy (JObj _) = True"

text \<open>\<open>a || b\<close> on values whose evaluation cannot throw.\<close>

definition js_or :: "jsval \<Rightarrow> jsval \<Rightarrow> jsval" where
  "js_or a b = (if truthy a then a else b)"

text \<open>
  \<open>x?.p\<close>, and \<open>x.p\<close> for an \<open>x\<close> that is neither null nor undefined: the property of an
  object, \<open>undefined\<close> when it is absent. None of the property names read by the server
  is a built-in property of a string, a number or an array, so the read is
  \<open>undefined\<close> on those.
\<close>

fun get :: "jsval \<Rightarrow> string \<Rightarrow> jsval" where
  "get (JObj ps) k = (case map_of ps k of Some v \<Rightarrow> v | None \<Rightarrow> Undefined)"
| "get _ k = Undefined"

fun nullish :: "jsval \<Rightarrow> bool" where
  "nullish Undefined = True"
| "nullish Null = True"
| "nullish _ = False"

subsection \<open>Strings\<close>

text \<open>White space is the ASCII white space; the Unicode spaces beyond it are left out.\<close>

definition is_space :: "char \<Rightarrow> bool" where
  "is_space c = (c \<in> set [CHR '' '', CHR 0x09, CHR 0x0A, CHR 0x0B, CHR 0x0C, CHR 0x0D])"

definition is_digit :: "char \<Rightarrow> bool" where
  "is_digit c = (48 \<le> (of_char c :: nat) \<and> (of_char c :: nat) \<le> 57)"

definition digit_val :: "char \<Rightarrow> nat" where
  "digit_val c = of_char c - 48"

definition digits_val :: "string \<Rightarrow> nat" where
  "digits_val ds = foldl (\<lambda>n c. 10 * n + digit_val c) 0 ds"

text \<open>\<open>s.trim()\<close>, for ASCII white space.\<close>

definition trim :: "string \<Rightarrow> string" where
  "trim s = rev (dropWhile is_space (rev (dropWhile is_space s)))"

text \<open>\<open>s.replace(pat, rep)\<close> with a string pattern: the first occurrence only.\<close>

fun replace :: "string \<Rightarrow> string \<Rightarrow> string \<Rightarrow> string" where
  "replace pat rep [] = (if pat = [] then rep else [])"
| "replace pat rep (c # cs) =
     (if take (length pat) (c # cs) = pat then rep @ drop (length pat) (c # cs)
      else c # replace pat rep cs)"

definition toLowerCase :: "string \<Rightarrow> string" where
  "toLowerCase s =
     map (\<lambda>c. if 65 \<le> (of_char c :: nat) \<and> (of_char c :: nat) \<le> 90
               then char_of ((of_char c :: nat) + 32) else c) s"

definition endsWith :: "string \<Rightarrow> string \<Rightarrow> bool" where
  "endsWith s suffix = (length suffix \<le> length s \<and> drop (length s - length suffix) s = suffix)"

subsection \<open>parseFloat\<close>

definition take_sign :: "string \<Rightarrow> real \<times> string" where
  "take_sign s =
     (case s of
        c # r \<Rightarrow> if c = CHR ''-'' then (-1, r) else if c = CHR ''+'' then (1, r) else (1, s)
      | [] \<Rightarrow> (1, s))"

definition exponent_of :: "string \<Rightarrow> int" where
  "exponent_of s =
     (case s of
        c # r \<Rightarrow>
          if c = CHR ''e'' \<or> c = CHR ''E'' then
            (let (sg, r') = take_sign r; ds = takeWhile is_digit r'
             in if ds = [] then 0
                else if sg < 0 then - int (digits_val ds) else int (digits_val ds))
          else 0
      | [] \<Rightarrow> 0)"

definition scale10 :: "real \<Rightarrow> int \<Rightarrow> real" where
  "scale10 x e = (if 0 \<le> e then x * 10 ^ nat e else x / 10 ^ nat (- e))"

text \<open>
  The longest prefix of the text that is a decimal literal (sign, digits, fraction,
  exponent), after leading white space; \<open>NaN\<close> when there is none. The literal
  \<open>Infinity\<close> has no value among the numbers above and is read as \<open>NaN\<close>.
\<close>

definition parseFloat_str :: "string \<Rightarrow> jsnum" where
  "parseFloat_str s =
     (let (sg, s1) = take_sign (dropWhile is_space s);
          ip = takeWhile is_digit s1;
          s2 = dropWhile is_digit s1;
          (fp, s3) = (case s2 of
                        c # r \<Rightarrow> if c = CHR ''.''
                                 then (takeWhile is_digit r, dropWhile is_digit r)
                                 else ([], s2)
                      | [] \<Rightarrow> ([], s2))
      in if ip = [] \<and> fp = [] then NaN
         else Fin (sg * scale10 (real (digits_val ip)
                     + real (digits_val fp) / 10 ^ length fp) (exponent_of s3)))"

text \<open>
  \<open>parseFloat(v)\<close> converts its argument to a string first. A number prints to a
  literal that reads back as itself; an array prints its elements separated by commas,
  so only its first element can contribute; every other value prints to text that is
  not a number.
\<close>

fun parseFloat :: "jsval \<Rightarrow> jsnum" where
  "parseFloat (JNum n) = n"
| "parseFloat (JStr s) = parseFloat_str s"
| "parseFloat (JArr (x # xs)) = parseFloat x"
| "parseFloat _ = NaN"

section \<open>The store\<close>

text \<open>
  A value as the driver binds it to a statement: \<open>null\<close> and \<open>undefined\<close> bind NULL, a
  number binds a REAL (\<open>NaN\<close> binds NULL), a string binds TEXT; a boolean, an array or
  an object is refused with a TypeError. A column holds the value as bound: the
  conversions of column affinity are not applied.
\<close>

datatype sqlval = SqlNull | SqlReal real | SqlText string

datatype error =
    InvalidXml          \<comment> \<open>XML de CT-e invalido ou estrutura nao reconhecida\<close>
  | KeyNotFound         \<comment> \<open>Chave do CT-e nao encontrada no XML\<close>
  | CarrierCnpjMissing  \<comment> \<open>CNPJ do transportador (emitente) nao encontrado no XML\<close>
  | TomadorCnpjMissing  \<comment> \<open>CNPJ do tomador do servico nao pode ser determinado\<close>
  | TypeError
  | NotNullConstraint
  | UniqueConstraint
  | ForeignKeyConstraint
  | ZipError             \<comment> \<open>the archive could not be read\<close>
  | SheetError           \<comment> \<open>the spreadsheet could not be read\<close>

fun bind :: "jsval \<Rightarrow> error + sqlval" where
  "bind Undefined = Inr SqlNull"
| "bind Null = Inr SqlNull"
| "bind (JNum NaN) = Inr SqlNull"
| "bind (JNum (Fin r)) = Inr (SqlReal r)"
| "bind (JStr s) = Inr (SqlText s)"
| "bind _ = Inl TypeError"

record carrier =
  carrier_id :: nat
  carrier_tenant_id :: nat
  carrier_name :: sqlval
  carrier_cnpj :: sqlval

record freight_table =
  ft_id :: nat
  ft_tenant_id :: nat
  ft_carrier_id :: nat
  ft_name :: string
  ft_version :: string
  ft_is_active :: int

text \<open>\<open>kg_extra_value\<close> is the only nullable column of a weight range.\<close>

record weight_range =
  wr_id :: nat
  wr_table_id :: nat
  min_weight :: real
  max_weight :: real
  base_value :: real
  kg_extra_value :: "real option"

record cte =
  cte_id :: nat
  cte_tenant_id :: nat
  xml_key :: string
  cte_carrier_cnpj :: sqlval
  tomador_cnpj :: sqlval
  total_value :: real
  weight :: real
  origin_zip :: sqlval
  dest_zip :: sqlval
  origin_city :: sqlval
  dest_city :: sqlval
  cfop :: sqlval
  icms_value :: sqlval
  icms_base :: sqlval
  icms_rate :: sqlval
  cte_status :: string

record audit =
  audit_id :: nat
  audit_cte_id :: nat
  calculated_value :: real
  difference :: real
  divergence_type :: "string option"
  audit_status :: string
  contestation_reason :: sqlval

record memory_calculation =
  mc_id :: nat
  codigo :: string
  soltransp :: string
  origem :: string
  destino :: string
  peso :: jsnum
  frete_valor :: jsnum
  obs :: string
  icms :: jsnum
  pedagios :: jsnum
  seguro :: jsnum
  frete_peso :: jsnum
  frete_all_in :: jsnum
  calculated_total :: jsnum
  mc_status :: string

record table_import =
  import_id :: nat
  import_filename :: string
  qty_imported :: nat
  qty_errors :: nat
  qty_total :: nat
  import_status :: string

datatype row_message =
    MissingCodigo     \<comment> \<open>CODIGO ou SOLTRANSP ausente ou invalido\<close>
  | MissingOrigem     \<comment> \<open>ORIGEM ou DESTINO ausente ou invalido\<close>
  | MissingAllIn      \<comment> \<open>FRETE ALL IN ausente ou invalido, conciliacao impossivel.\<close>
  | InternalError error  \<comment> \<open>Erro interno: e.message\<close>

text \<open>\<open>raw_data\<close> holds the row itself; its JSON text is not modelled.\<close>

record import_error =
  ie_id :: nat
  ie_import_id :: nat
  row_number :: nat
  error_message :: row_message
  raw_data :: jsval

text \<open>
  The tables, each in row order, and for each table with inserts the largest row id
  given out so far (AUTOINCREMENT). The tenants table is left out: the only tenant
  referred to is the seeded tenant 1, which is never deleted. A NaN kept in a nullable
  REAL column of \<open>memory_calculations\<close> stands for the NULL it is stored as.
\<close>

record db =
  carriers :: "carrier list"
  freight_tables :: "freight_table list"
  weight_ranges :: "weight_range list"
  ctes :: "cte list"
  audits :: "audit list"
  memory_calculations :: "memory_calculation list"
  table_imports :: "table_import list"
  import_errors :: "import_error list"
  seq_carriers :: nat
  seq_ctes :: nat
  seq_audits :: nat
  seq_memory :: nat
  seq_imports :: nat
  seq_errors :: nat

text \<open>\<open>column = ?\<close>: NULL equals nothing.\<close>

fun sql_eq :: "sqlval \<Rightarrow> sqlval \<Rightarrow> bool" where
  "sql_eq SqlNull _ = False"
| "sql_eq _ SqlNull = False"
| "sql_eq a b = (a = b)"

definition bindable :: "jsval \<Rightarrow> bool" where
  "bindable v = (case bind v of Inl _ \<Rightarrow> False | Inr _ \<Rightarrow> True)"

definition bound :: "jsval \<Rightarrow> sqlval" where
  "bound v = (case bind v of Inl _ \<Rightarrow> SqlNull | Inr x \<Rightarrow> x)"

fun fin_val :: "jsnum \<Rightarrow> real" where
  "fin_val (Fin r) = r"
| "fin_val NaN = 0"

section \<open>processXml\<close>

text \<open>What \<open>processXml\<close> returns, and the entry the batch handler records for a throw.\<close>

datatype result =
    Success nat string   \<comment> \<open>success: true, cteId, xmlKey\<close>
  | Skipped string       \<comment> \<open>success: false, message: CT-e ja importado., xmlKey\<close>
  | Failed error string  \<comment> \<open>success: false, message: e.message, filename\<close>

fun success :: "result \<Rightarrow> bool" where
  "success (Success _ _) = True"
| "success _ = False"

text \<open>Lines 223 to 230: the info block, under \<open>cteProc\<close> or at the top.\<close>

definition find_infCte :: "jsval \<Rightarrow> error + jsval" where
  "find_infCte jsonObj =
     (if nullish jsonObj then Inl TypeError
      else
        let cteProc = js_or (get jsonObj ''cteProc'') (get jsonObj ''cteProc'');
            CTe = js_or (get cteProc ''CTe'') (get jsonObj ''CTe'');
            infCte = get CTe ''infCte''
        in if \<not> truthy infCte then Inl InvalidXml else Inr infCte)"

text \<open>
  \<open>v?.replace("CTe", "")\<close>: \<open>undefined\<close> (here \<open>None\<close>) for a missing value, a
  TypeError for a value that is not a string, since it has no method \<open>replace\<close>.
\<close>

fun replace_CTe :: "jsval \<Rightarrow> error + string option" where
  "replace_CTe Undefined = Inr None"
| "replace_CTe Null = Inr None"
| "replace_CTe (JStr s) = Inr (Some (replace ''CTe'' [] s))"
| "replace_CTe _ = Inl TypeError"

text \<open>Lines 232 and 233. The second operand of \<open>||\<close> is evaluated only if the first is falsy.\<close>

definition xmlKey_of :: "jsval \<Rightarrow> error + string" where
  "xmlKey_of infCte =
     (case replace_CTe (get infCte ''@_Id'') of
        Inl e \<Rightarrow> Inl e
      | Inr (Some (c # cs)) \<Rightarrow> Inr (c # cs)
      | Inr _ \<Rightarrow>
          (case replace_CTe (get infCte ''Id'') of
             Inl e \<Rightarrow> Inl e
           | Inr (Some (c # cs)) \<Rightarrow> Inr (c # cs)
           | Inr _ \<Rightarrow> Inl KeyNotFound))"

text \<open>Line 242.\<close>

definition carrierCnpj_of :: "jsval \<Rightarrow> jsval" where
  "carrierCnpj_of infCte = get (get infCte ''emit'') ''CNPJ''"

text \<open>Line 243.\<close>

definition totalValue_of :: "jsval \<Rightarrow> jsnum" where
  "totalValue_of infCte = parseFloat (js_or (get (get infCte ''vPrest'') ''vTPrest'') (JStr ''0''))"

text \<open>Lines 249 to 253.\<close>

definition icmsData_of :: "jsval \<Rightarrow> jsval" where
  "icmsData_of infCte =
     (let ICMS = get (get infCte ''imp'') ''ICMS''
      in js_or (js_or (get ICMS ''ICMS00'') (get ICMS ''ICMS20'')) (get ICMS ''ICMS45''))"

definition icms_field :: "jsval \<Rightarrow> string \<Rightarrow> jsnum" where
  "icms_field infCte k = parseFloat (js_or (get (icmsData_of infCte) k) (JStr ''0''))"

text \<open>
  Lines 255 to 262. The callback of \<open>find\<close> reads \<open>q.tpMed\<close>, which throws on an
  element that is null or undefined.
\<close>

fun find_tpMed :: "jsval list \<Rightarrow> error + jsval" where
  "find_tpMed [] = Inr Undefined"
| "find_tpMed (q # qs) =
     (if nullish q then Inl TypeError
      else if get q ''tpMed'' = JStr ''PESO BRUTO'' then Inr q
      else find_tpMed qs)"

definition weight_of :: "jsval \<Rightarrow> error + jsnum" where
  "weight_of infCte =
     (let infQ = get (get (get infCte ''infCTeNorm'') ''infCarga'') ''infQ''
      in case infQ of
           JArr qs \<Rightarrow>
             (case find_tpMed qs of
                Inl e \<Rightarrow> Inl e
              | Inr weightObj \<Rightarrow> Inr (parseFloat (js_or (get weightObj ''qCarga'') (JStr ''0''))))
         | _ \<Rightarrow>
             if get infQ ''tpMed'' = JStr ''PESO BRUTO''
             then Inr (parseFloat (js_or (get infQ ''qCarga'') (JStr ''0'')))
             else Inr (Fin 0))"

text \<open>Lines 264 to 270.\<close>

definition tomadorCnpjValue_of :: "jsval \<Rightarrow> jsval" where
  "tomadorCnpjValue_of infCte =
     (let ide = get infCte ''ide'';
          tomaType = js_or (get (get ide ''toma3'') ''toma'') (get (get ide ''toma4'') ''toma'');
          tomadorCnpj =
            (if tomaType = JNum (Fin 0) \<or> tomaType = JStr ''0'' then get (get infCte ''rem'') ''CNPJ''
             else if tomaType = JNum (Fin 3) \<or> tomaType = JStr ''3'' then get (get infCte ''dest'') ''CNPJ''
             else js_or (get (get infCte ''rem'') ''CNPJ'') (JStr []))
      in js_or tomadorCnpj (JStr []))"

text \<open>Line 236: \<open>SELECT id FROM ctes WHERE xml_key = ?\<close>.\<close>

definition existingCte :: "db \<Rightarrow> string \<Rightarrow> cte option" where
  "existingCte d xmlKey = find (\<lambda>c. xml_key c = xmlKey) (ctes d)"

text \<open>
  Lines 279 to 284. The driver binds every parameter, then the insert checks the
  constraints of the schema: \<open>xml_key\<close> is UNIQUE, and \<open>carrier_cnpj\<close>, \<open>tomador_cnpj\<close>,
  \<open>total_value\<close> and \<open>weight\<close> are NOT NULL. The row gets the next id, which is also
  \<open>lastInsertRowid\<close>.
\<close>

definition insertCte ::
  "db \<Rightarrow> nat \<Rightarrow> string \<Rightarrow> jsval \<Rightarrow> jsval \<Rightarrow> jsnum \<Rightarrow> jsnum \<Rightarrow> jsval \<Rightarrow> jsval \<Rightarrow> jsval \<Rightarrow> jsval
     \<Rightarrow> jsval \<Rightarrow> jsnum \<Rightarrow> jsnum \<Rightarrow> jsnum \<Rightarrow> string \<Rightarrow> error + db \<times> nat" where
  "insertCte d tenantId xmlKey carrierCnpj tomadorCnpjValue totalValue weight' originZip destZip
       originCity destCity cfop' icmsValue icmsBase icmsRate status =
     (if \<not> list_all bindable
            [carrierCnpj, tomadorCnpjValue, originZip, destZip, originCity, destCity, cfop']
      then Inl TypeError
      else if bound carrierCnpj = SqlNull \<or> bound tomadorCnpjValue = SqlNull
              \<or> totalValue = NaN \<or> weight' = NaN
      then Inl NotNullConstraint
      else if existingCte d xmlKey \<noteq> None then Inl UniqueConstraint
      else
        let cteId = Suc (seq_ctes d)
        in Inr (d\<lparr>ctes := ctes d @
                    [\<lparr>cte_id = cteId, cte_tenant_id = tenantId, xml_key = xmlKey,
                      cte_carrier_cnpj = bound carrierCnpj,
                      tomador_cnpj = bound tomadorCnpjValue,
                      total_value = fin_val totalValue, weight = fin_val weight',
                      origin_zip = bound originZip, dest_zip = bound destZip,
                      origin_city = bound originCity, dest_city = bound destCity,
                      cfop = bound cfop',
                      icms_value = bound (JNum icmsValue), icms_base = bound (JNum icmsBase),
                      icms_rate = bound (JNum icmsRate), cte_status = status\<rparr>],
                  seq_ctes := cteId\<rparr>, cteId))"

text \<open>Line 286: \<open>SELECT id FROM carriers WHERE cnpj = ?\<close>, the first row.\<close>

definition find_carrier :: "db \<Rightarrow> jsval \<Rightarrow> carrier option" where
  "find_carrier d carrierCnpj = find (\<lambda>c. sql_eq (carrier_cnpj c) (bound carrierCnpj)) (carriers d)"

text \<open>Line 287: the first active table of the carrier under the tenant, if the carrier was found.\<close>

definition find_table :: "db \<Rightarrow> nat \<Rightarrow> jsval \<Rightarrow> freight_table option" where
  "find_table d tenantId carrierCnpj =
     (case find_carrier d carrierCnpj of
        None \<Rightarrow> None
      | Some carrier \<Rightarrow>
          find (\<lambda>t. ft_tenant_id t = tenantId \<and> ft_carrier_id t = carrier_id carrier
                     \<and> ft_is_active t = 1) (freight_tables d))"

text \<open>
  Line 293: the first range of the table with \<open>weight BETWEEN min_weight AND max_weight\<close>.
  A \<open>NaN\<close> weight is bound as NULL and is between nothing.
\<close>

fun find_weightRange :: "db \<Rightarrow> nat \<Rightarrow> jsnum \<Rightarrow> weight_range option" where
  "find_weightRange d tableId NaN = None"
| "find_weightRange d tableId (Fin w) =
     find (\<lambda>r. wr_table_id r = tableId \<and> min_weight r \<le> w \<and> w \<le> max_weight r) (weight_ranges d)"

text \<open>Lines 295 to 298. A NULL \<open>kg_extra_value\<close> is not greater than 0.\<close>

definition range_charge :: "weight_range \<Rightarrow> jsnum \<Rightarrow> jsnum" where
  "range_charge weightRange weight' =
     (let calculated = Fin (base_value weightRange)
      in case kg_extra_value weightRange of
           None \<Rightarrow> calculated
         | Some k \<Rightarrow>
             if k > 0 \<and> js_gt weight' (Fin (min_weight weightRange))
             then js_add calculated (js_mul (js_sub weight' (Fin (min_weight weightRange))) (Fin k))
             else calculated)"

text \<open>Lines 289 to 306: the calculated value and the divergence type set so far.\<close>

definition calculate :: "db \<Rightarrow> nat \<Rightarrow> jsval \<Rightarrow> jsnum \<Rightarrow> jsnum \<Rightarrow> jsnum \<times> string option" where
  "calculate d tenantId carrierCnpj totalValue weight' =
     (case find_table d tenantId carrierCnpj of
        Some table \<Rightarrow>
          (case find_weightRange d (ft_id table) weight' of
             Some weightRange \<Rightarrow> (range_charge weightRange weight', None)
           | None \<Rightarrow> (totalValue, Some ''weight_error''))
      | None \<Rightarrow> (totalValue, Some ''table_error''))"

text \<open>Lines 308 to 311: the difference and the final divergence type.\<close>

definition classify :: "jsnum \<Rightarrow> jsnum \<Rightarrow> string option \<Rightarrow> jsnum \<times> string option" where
  "classify totalValue calculated divergenceType =
     (let diff = js_sub totalValue calculated
      in if js_gt (js_abs diff) (Fin 0.01)
         then (diff, case divergenceType of None \<Rightarrow> Some ''value_divergence'' | Some t \<Rightarrow> Some t)
         else (diff, divergenceType))"

text \<open>
  Lines 313 to 316: \<open>calculated_value\<close> and \<open>difference\<close> are NOT NULL; \<open>status\<close> and
  \<open>contestation_reason\<close> take their defaults.
\<close>

definition insertAudit :: "db \<Rightarrow> nat \<Rightarrow> jsnum \<Rightarrow> jsnum \<Rightarrow> string option \<Rightarrow> error + db" where
  "insertAudit d cteId calculated diff divergenceType =
     (if calculated = NaN \<or> diff = NaN then Inl NotNullConstraint
      else Inr (d\<lparr>audits := audits d @
                    [\<lparr>audit_id = Suc (seq_audits d), audit_cte_id = cteId,
                      calculated_value = fin_val calculated, difference = fin_val diff,
                      divergence_type = divergenceType, audit_status = ''open'',
                      contestation_reason = SqlNull\<rparr>],
                  seq_audits := Suc (seq_audits d)\<rparr>))"

text \<open>Lines 286 to 318, after the shipment has been inserted.\<close>

definition audit_cte ::
  "db \<Rightarrow> nat \<Rightarrow> nat \<Rightarrow> string \<Rightarrow> jsval \<Rightarrow> jsnum \<Rightarrow> jsnum \<Rightarrow> db \<times> (error + result)" where
  "audit_cte d tenantId cteId xmlKey carrierCnpj totalValue weight' =
     (let (calculated, divergenceType0) = calculate d tenantId carrierCnpj totalValue weight';
          (diff, divergenceType) = classify totalValue calculated divergenceType0
      in case insertAudit d cteId calculated diff divergenceType of
           Inl e \<Rightarrow> (d, Inl e)
         | Inr d' \<Rightarrow> (d', Inr (Success cteId xmlKey)))"

text \<open>
  \<open>processXml\<close> on the parsed document. The store is returned with the outcome: a throw
  (\<open>Inl\<close>) keeps what was written before it.
\<close>

definition processXml :: "db \<Rightarrow> jsval \<Rightarrow> nat \<Rightarrow> db \<times> (error + result)" where
  "processXml d jsonObj tenantId =
     (case find_infCte jsonObj of
        Inl e \<Rightarrow> (d, Inl e)
      | Inr infCte \<Rightarrow>
     (case xmlKey_of infCte of
        Inl e \<Rightarrow> (d, Inl e)
      | Inr xmlKey \<Rightarrow>
     if existingCte d xmlKey \<noteq> None then (d, Inr (Skipped xmlKey))
     else
       let carrierCnpj = carrierCnpj_of infCte;
           totalValue = totalValue_of infCte;
           cfop' = get (get infCte ''ide'') ''CFOP'';
           originCity = get (get infCte ''ide'') ''xMunIni'';
           destCity = get (get infCte ''ide'') ''xMunFim'';
           originZip = get (get (get infCte ''rem'') ''enderReme'') ''CEP'';
           destZip = get (get (get infCte ''dest'') ''enderDest'') ''CEP'';
           icmsValue = icms_field infCte ''vICMS'';
           icmsBase = icms_field infCte ''vBC'';
           icmsRate = icms_field infCte ''pICMS''
       in
     (case weight_of infCte of
        Inl e \<Rightarrow> (d, Inl e)
      | Inr weight' \<Rightarrow>
     let tomadorCnpjValue = tomadorCnpjValue_of infCte
     in
     if \<not> truthy carrierCnpj then (d, Inl CarrierCnpjMissing)
     else if \<not> truthy tomadorCnpjValue then (d, Inl TomadorCnpjMissing)
     else
     (case insertCte d tenantId xmlKey carrierCnpj tomadorCnpjValue totalValue weight'
             originZip destZip originCity destCity cfop' icmsValue icmsBase icmsRate ''audited'' of
        Inl e \<Rightarrow> (d, Inl e)
      | Inr (d1, cteId) \<Rightarrow>
          audit_cte d1 tenantId cteId xmlKey carrierCnpj totalValue weight'))))"

text \<open>Lines 166 to 175: the store of a fresh database after the seed rows.\<close>

definition seed_db :: db where
  "seed_db =
     \<lparr>carriers =
        [\<lparr>carrier_id = 1, carrier_tenant_id = 1,
          carrier_name = SqlText ''R&R ISA'S TRANSPORTES LTDA'',
          carrier_cnpj = SqlText ''35856333000100''\<rparr>],
      freight_tables =
        [\<lparr>ft_id = 1, ft_tenant_id = 1, ft_carrier_id = 1,
          ft_name = ''Tabela Padr'' @ [CHR 0xC3, CHR 0xA3] @ ''o 2026'', ft_version = ''v1.0'',
          ft_is_active = 1\<rparr>],
      weight_ranges =
        [\<lparr>wr_id = 1, wr_table_id = 1, min_weight = 0, max_weight = 1000,
          base_value = 500, kg_extra_value = Some 0.5\<rparr>,
         \<lparr>wr_id = 2, wr_table_id = 1, min_weight = 1000, max_weight = 10000,
          base_value = 2500, kg_extra_value = Some 0.35\<rparr>,
         \<lparr>wr_id = 3, wr_table_id = 1, min_weight = 10000, max_weight = 50000,
          base_value = 5000, kg_extra_value = Some 0.25\<rparr>],
      ctes = [], audits = [], memory_calculations = [], table_imports = [], import_errors = [],
      seq_carriers = 1, seq_ctes = 0, seq_audits = 0, seq_memory = 0, seq_imports = 0,
      seq_errors = 0\<rparr>"

section \<open>POST /api/upload-batch\<close>

text \<open>
  An uploaded file, with the two readings of its buffer the handler may take: the
  entries of the archive in the order \<open>zip.files\<close> lists them, each with its name and
  its content as parsed (\<open>None\<close> when \<open>JSZip.loadAsync\<close> throws), and the buffer parsed
  as one XML document.
\<close>

record upload_file =
  mimetype :: string
  originalname :: string
  as_zip :: "(string \<times> jsval) list option"
  as_xml :: jsval

record batch =
  b_db :: db
  results :: "result list"
  processedCount :: nat
  errorCount :: nat

text \<open>Lines 339 and 340, and 350 and 351.\<close>

definition tally :: "result \<Rightarrow> batch \<Rightarrow> batch" where
  "tally r b =
     (let b' = b\<lparr>results := results b @ [r]\<rparr>
      in if success r then b'\<lparr>processedCount := processedCount b' + 1\<rparr>
         else b'\<lparr>errorCount := errorCount b' + 1\<rparr>)"

text \<open>The two catch blocks, lines 341 to 344 and 355 to 358.\<close>

definition caught :: "error \<Rightarrow> string \<Rightarrow> batch \<Rightarrow> batch" where
  "caught e name b = b\<lparr>errorCount := errorCount b + 1, results := results b @ [Failed e name]\<rparr>"

text \<open>\<open>processXml(xmlContent)\<close> with the default tenant 1, and what is done with its outcome.\<close>

definition run_xml :: "string \<Rightarrow> jsval \<Rightarrow> batch \<Rightarrow> batch" where
  "run_xml name doc b =
     (case processXml (b_db b) doc 1 of
        (d', Inr r) \<Rightarrow> tally r (b\<lparr>b_db := d'\<rparr>)
      | (d', Inl e) \<Rightarrow> caught e name (b\<lparr>b_db := d'\<rparr>))"

text \<open>Lines 334 to 346: one entry of an archive.\<close>

definition zip_entry :: "batch \<Rightarrow> string \<times> jsval \<Rightarrow> batch" where
  "zip_entry b entry =
     (if endsWith (toLowerCase (fst entry)) ''.xml'' then run_xml (fst entry) (snd entry) b else b)"

text \<open>Lines 330 to 359: one uploaded file.\<close>

definition batch_file :: "batch \<Rightarrow> upload_file \<Rightarrow> batch" where
  "batch_file b file =
     (if mimetype file = ''application/zip'' \<or> endsWith (originalname file) ''.zip'' then
        (case as_zip file of
           None \<Rightarrow> caught ZipError (originalname file) b
         | Some entries \<Rightarrow> foldl zip_entry b entries)
      else if mimetype file = ''text/xml'' \<or> mimetype file = ''application/xml''
              \<or> endsWith (originalname file) ''.xml'' then
        run_xml (originalname file) (as_xml file) b
      else b)"

text \<open>The handler: status 400 for no file, else the batch after every file.\<close>

definition upload_batch :: "db \<Rightarrow> upload_file list \<Rightarrow> nat \<times> batch" where
  "upload_batch d files =
     (let b0 = \<lparr>b_db = d, results = [], processedCount = 0, errorCount = 0\<rparr>
      in if files = [] then (400, b0) else (200, foldl batch_file b0 files))"

section \<open>Contesting and waiving\<close>

text \<open>
  A row is named by its id. POST /api/contest, lines 564 to 568: the reason of the
  request body is bound as it comes, \<open>undefined\<close> when the body has none.
\<close>

definition contest :: "db \<Rightarrow> nat \<Rightarrow> jsval \<Rightarrow> error + db" where
  "contest d auditId reason =
     (case bind reason of
        Inl e \<Rightarrow> Inl e
      | Inr v \<Rightarrow>
          Inr (d\<lparr>audits :=
                   map (\<lambda>a. if audit_id a = auditId
                             then a\<lparr>audit_status := ''contested'', contestation_reason := v\<rparr>
                             else a) (audits d)\<rparr>))"

text \<open>PUT /api/audits/:id/waive, lines 579 to 582.\<close>

definition waive_audit :: "db \<Rightarrow> nat \<Rightarrow> db" where
  "waive_audit d i =
     d\<lparr>audits := map (\<lambda>a. if audit_id a = i then a\<lparr>audit_status := ''waived''\<rparr> else a) (audits d)\<rparr>"

text \<open>PUT /api/memory-calculations/:id/waive, lines 430 to 433.\<close>

definition waive_memory :: "db \<Rightarrow> nat \<Rightarrow> db" where
  "waive_memory d i =
     d\<lparr>memory_calculations :=
          map (\<lambda>m. if mc_id m = i then m\<lparr>mc_status := ''ABONADO''\<rparr> else m) (memory_calculations d)\<rparr>"

text \<open>DELETE /api/memory-calculations, lines 584 to 591.\<close>

definition delete_memory :: "db \<Rightarrow> db" where
  "delete_memory d = d\<lparr>memory_calculations := []\<rparr>"

text \<open>
  POST /api/carriers, lines 531 to 540: \<open>name\<close> and \<open>cnpj\<close> are NOT NULL, and the tenant
  must exist; the only tenant is 1.
\<close>

definition post_carrier :: "db \<Rightarrow> jsval \<Rightarrow> jsval \<Rightarrow> nat \<Rightarrow> error + db" where
  "post_carrier d name cnpj tenantId =
     (if \<not> bindable name \<or> \<not> bindable cnpj then Inl TypeError
      else if bound name = SqlNull \<or> bound cnpj = SqlNull then Inl NotNullConstraint
      else if tenantId \<noteq> 1 then Inl ForeignKeyConstraint
      else Inr (d\<lparr>carriers := carriers d @
                    [\<lparr>carrier_id = Suc (seq_carriers d), carrier_tenant_id = tenantId,
                      carrier_name = bound name, carrier_cnpj = bound cnpj\<rparr>],
                  seq_carriers := Suc (seq_carriers d)\<rparr>))"

text \<open>PUT /api/carriers/:id, lines 542 to 552.\<close>

definition put_carrier :: "db \<Rightarrow> nat \<Rightarrow> jsval \<Rightarrow> jsval \<Rightarrow> error + db" where
  "put_carrier d i name cnpj =
     (if \<not> bindable name \<or> \<not> bindable cnpj then Inl TypeError
      else if (bound name = SqlNull \<or> bound cnpj = SqlNull)
              \<and> list_ex (\<lambda>c. carrier_id c = i \<and> carrier_tenant_id c = 1) (carriers d)
      then Inl NotNullConstraint
      else Inr (d\<lparr>carriers :=
                   map (\<lambda>c. if carrier_id c = i \<and> carrier_tenant_id c = 1
                             then c\<lparr>carrier_name := bound name, carrier_cnpj := bound cnpj\<rparr>
                             else c) (carriers d)\<rparr>))"

text \<open>
  The form of the user interface (App.tsx, lines 421 to 439): nothing is sent without a
  selected audit and a reason; else the reason is posted to /api/contest.
\<close>

definition submitContest :: "db \<Rightarrow> nat option \<Rightarrow> string \<Rightarrow> db" where
  "submitContest d selectedAuditForContest contestReason =
     (case selectedAuditForContest of
        None \<Rightarrow> d
      | Some auditId \<Rightarrow>
          if auditId = 0 \<or> contestReason = [] then d
          else (case contest d auditId (JStr contestReason) of Inl e \<Rightarrow> d | Inr d' \<Rightarrow> d'))"

section \<open>POST /api/table-imports/upload\<close>

text \<open>
  \<open>String(v)\<close>. How a finite number prints is a parameter (\<open>numberToString\<close>): the
  exact reals above have no shortest decimal form to print.
\<close>

fun join_comma :: "string list \<Rightarrow> string" where
  "join_comma [] = []"
| "join_comma [s] = s"
| "join_comma (s # t # ts) = s @ '','' @ join_comma (t # ts)"

fun js_String :: "(real \<Rightarrow> string) \<Rightarrow> jsval \<Rightarrow> string" where
  "js_String numberToString Undefined = ''undefined''"
| "js_String numberToString Null = ''null''"
| "js_String numberToString (JBool b) = (if b then ''true'' else ''false'')"
| "js_String numberToString (JNum NaN) = ''NaN''"
| "js_String numberToString (JNum (Fin r)) = numberToString r"
| "js_String numberToString (JStr s) = s"
| "js_String numberToString (JArr xs) =
     join_comma (map (\<lambda>x. if nullish x then [] else js_String numberToString x) xs)"
| "js_String numberToString (JObj ps) = ''[object Object]''"

text \<open>Lines 667 to 671.\<close>

fun getNum :: "jsval \<Rightarrow> jsnum" where
  "getNum (JNum n) = n"
| "getNum (JStr s) =
     (let n = parseFloat_str (replace '','' ''.'' s) in if truthy (JNum n) then n else Fin 0)"
| "getNum _ = Fin 0"

text \<open>The column names with an accent, as UTF-8.\<close>

definition CODIGO :: string where
  "CODIGO = ''C'' @ [CHR 0xC3, CHR 0x93] @ ''DIGO''"

definition PEDAGIOS :: string where
  "PEDAGIOS = ''PED'' @ [CHR 0xC3, CHR 0x81] @ ''GIOS''"

text \<open>Lines 673 to 684: the fields of a row.\<close>

record row_fields =
  rf_peso :: jsnum
  rf_codigo :: string
  rf_soltransp :: string
  rf_origem :: string
  rf_destino :: string
  rf_frete_valor :: jsnum
  rf_obs :: string
  rf_icms :: jsnum
  rf_pedagios :: jsnum
  rf_seguro :: jsnum
  rf_frete_peso :: jsnum
  rf_frete_all_in :: jsnum

text \<open>\<open>row[k] || row[k1] || ...\<close>, read from the left.\<close>

definition first_of :: "jsval \<Rightarrow> string \<Rightarrow> string list \<Rightarrow> jsval" where
  "first_of row k keys = foldl (\<lambda>v k'. js_or v (get row k')) (get row k) keys"

definition text_field :: "(real \<Rightarrow> string) \<Rightarrow> jsval \<Rightarrow> string \<Rightarrow> string list \<Rightarrow> string" where
  "text_field numberToString row k keys =
     trim (js_String numberToString (js_or (first_of row k keys) (JStr [])))"

definition num_field :: "jsval \<Rightarrow> string \<Rightarrow> string list \<Rightarrow> jsnum" where
  "num_field row k keys = getNum (first_of row k keys)"

definition read_row :: "(real \<Rightarrow> string) \<Rightarrow> jsval \<Rightarrow> row_fields" where
  "read_row numberToString row =
     \<lparr>rf_peso = num_field row ''PESO'' [''peso''],
      rf_codigo = text_field numberToString row CODIGO [''CDIGO'', ''codigo''],
      rf_soltransp = text_field numberToString row ''SOLTRANSP'' [''soltransp''],
      rf_origem = text_field numberToString row ''ORIGEM'' [''origem''],
      rf_destino = text_field numberToString row ''DESTINO'' [''destino''],
      rf_frete_valor = num_field row ''FRETE'' [''frete''],
      rf_obs = text_field numberToString row ''OBS'' [''obs''],
      rf_icms = num_field row ''ICMS'' [''icms''],
      rf_pedagios = num_field row PEDAGIOS [''PEDGIOS'', ''pedagios''],
      rf_seguro = num_field row ''SEGURO'' [''seguro''],
      rf_frete_peso = num_field row ''FRETE PESO'' [''frete_peso''],
      rf_frete_all_in = num_field row ''FRETE ALL IN'' [''frete_all_in'']\<rparr>"

text \<open>Lines 689 to 694: the message of the validation, \<open>None\<close> for the empty message.\<close>

definition validate :: "row_fields \<Rightarrow> row_message option" where
  "validate r =
     (if rf_codigo r = [] \<or> rf_soltransp r = [] then Some MissingCodigo
      else if rf_origem r = [] \<or> rf_destino r = [] then Some MissingOrigem
      else None)"

record import_state =
  i_db :: db
  imported :: nat
  errors :: nat

text \<open>\<open>insertErrorStmt.run(importId, rowNum, message, JSON.stringify(row))\<close>.\<close>

definition insertError :: "db \<Rightarrow> nat \<Rightarrow> nat \<Rightarrow> row_message \<Rightarrow> jsval \<Rightarrow> db" where
  "insertError d importId rowNum msg row =
     d\<lparr>import_errors := import_errors d @
          [\<lparr>ie_id = Suc (seq_errors d), ie_import_id = importId, row_number = rowNum,
            error_message = msg, raw_data = row\<rparr>],
        seq_errors := Suc (seq_errors d)\<rparr>"

text \<open>Lines 713 to 716.\<close>

definition insertMemory :: "db \<Rightarrow> row_fields \<Rightarrow> jsnum \<Rightarrow> string \<Rightarrow> db" where
  "insertMemory d r calculated_total' status =
     d\<lparr>memory_calculations := memory_calculations d @
          [\<lparr>mc_id = Suc (seq_memory d), codigo = rf_codigo r, soltransp = rf_soltransp r,
            origem = rf_origem r, destino = rf_destino r, peso = rf_peso r,
            frete_valor = rf_frete_valor r, obs = rf_obs r, icms = rf_icms r,
            pedagios = rf_pedagios r, seguro = rf_seguro r, frete_peso = rf_frete_peso r,
            frete_all_in = rf_frete_all_in r, calculated_total = calculated_total',
            mc_status = status\<rparr>],
        seq_memory := Suc (seq_memory d)\<rparr>"

text \<open>
  The status of the source with an accent is written \<open>ERRO DE CONCILIACAO\<close> here.
  Lines 704 to 711.
\<close>

definition reconcile :: "row_fields \<Rightarrow> jsnum \<times> jsnum \<times> string" where
  "reconcile r =
     (let calculated_total' =
            js_add (js_add (js_add (rf_icms r) (rf_pedagios r)) (rf_seguro r)) (rf_frete_peso r);
          diff = js_abs (js_sub calculated_total' (rf_frete_all_in r))
      in (calculated_total', diff,
          if js_le diff (Fin 0.05) then ''CONCILIADO'' else ''ERRO DE CONCILIACAO''))"

text \<open>
  Lines 666 to 725: one row. Reading a property of a row that is null or undefined
  throws; the catch block counts the row as an error and records the exception. In the
  branch of line 701 the message is assigned and nothing else is done.
\<close>

definition import_row :: "(real \<Rightarrow> string) \<Rightarrow> nat \<Rightarrow> nat \<Rightarrow> jsval \<Rightarrow> import_state \<Rightarrow> import_state" where
  "import_row numberToString importId rowNum row st =
     (if nullish row then
        st\<lparr>errors := errors st + 1,
           i_db := insertError (i_db st) importId rowNum (InternalError TypeError) row\<rparr>
      else
        let r = read_row numberToString row
        in case validate r of
             Some errorMsg \<Rightarrow>
               st\<lparr>errors := errors st + 1,
                  i_db := insertError (i_db st) importId rowNum errorMsg row\<rparr>
           | None \<Rightarrow>
               if \<not> truthy (JNum (rf_frete_all_in r)) \<or> js_le (rf_frete_all_in r) (Fin 0)
               then st
               else
                 let (calculated_total', diff, status) = reconcile r
                 in st\<lparr>i_db := insertMemory (i_db st) r calculated_total' status,
                       imported := imported st + 1\<rparr>)"

text \<open>Lines 663 to 726: \<open>rowNum\<close> is 1 for the header and is incremented before each row.\<close>

fun import_rows ::
  "(real \<Rightarrow> string) \<Rightarrow> nat \<Rightarrow> nat \<Rightarrow> jsval list \<Rightarrow> import_state \<Rightarrow> import_state" where
  "import_rows numberToString importId rowNum [] st = st"
| "import_rows numberToString importId rowNum (row # rows) st =
     import_rows numberToString importId (Suc rowNum) rows
       (import_row numberToString importId (Suc rowNum) row st)"

text \<open>
  A spreadsheet file: its name and the rows of its first sheet (\<open>None\<close> when reading
  the workbook throws).
\<close>

record sheet_file =
  sheet_name :: string
  sheet_rows :: "jsval list option"

text \<open>The entry of the response for a file: its name and, for a throw, the error.\<close>

type_synonym sheet_result = "string \<times> error option"

text \<open>
  Lines 642 to 744: one file. The import record is created first, with status
  \<open>processing\<close>; a file that cannot be read leaves it so.
\<close>

definition import_file ::
  "(real \<Rightarrow> string) \<Rightarrow> db \<times> sheet_result list \<Rightarrow> sheet_file \<Rightarrow> db \<times> sheet_result list" where
  "import_file numberToString acc file =
     (let d = fst acc;
          importId = Suc (seq_imports d);
          d1 = d\<lparr>table_imports := table_imports d @
                    [\<lparr>import_id = importId, import_filename = sheet_name file, qty_imported = 0,
                      qty_errors = 0, qty_total = 0, import_status = ''processing''\<rparr>],
                  seq_imports := importId\<rparr>
      in case sheet_rows file of
           None \<Rightarrow> (d1, snd acc @ [(sheet_name file, Some SheetError)])
         | Some data \<Rightarrow>
             let st = import_rows numberToString importId 1 data
                        \<lparr>i_db = d1, imported = 0, errors = 0\<rparr>;
                 total = imported st + errors st;
                 fileStatus = (if errors st > 0 then ''warning'' else ''success'');
                 d2 = (i_db st)\<lparr>table_imports :=
                         map (\<lambda>t. if import_id t = importId
                                   then t\<lparr>qty_imported := imported st, qty_errors := errors st,
                                          qty_total := total, import_status := fileStatus\<rparr>
                                   else t) (table_imports (i_db st))\<rparr>
             in (d2, snd acc @ [(sheet_name file, None)]))"

definition upload_tables ::
  "(real \<Rightarrow> string) \<Rightarrow> db \<Rightarrow> sheet_file list \<Rightarrow> nat \<times> db \<times> sheet_result list" where
  "upload_tables numberToString d files =
     (if files = [] then (400, d, []) else (200, foldl (import_file numberToString) (d, []) files))"

section \<open>The requests that write to the store\<close>

datatype request =
    UploadBatch "upload_file list"
  | Contest nat jsval
  | WaiveAudit nat
  | WaiveMemory nat
  | DeleteMemory
  | PostCarrier jsval jsval nat
  | PutCarrier nat jsval jsval
  | UploadTables "sheet_file list"

text \<open>The store after a request; a statement that throws writes nothing.\<close>

fun handle :: "(real \<Rightarrow> string) \<Rightarrow> db \<Rightarrow> request \<Rightarrow> db" where
  "handle numberToString d (UploadBatch files) = b_db (snd (upload_batch d files))"
| "handle numberToString d (Contest auditId reason) =
     (case contest d auditId reason of Inl e \<Rightarrow> d | Inr d' \<Rightarrow> d')"
| "handle numberToString d (WaiveAudit i) = waive_audit d i"
| "handle numberToString d (WaiveMemory i) = waive_memory d i"
| "handle numberToString d DeleteMemory = delete_memory d"
| "handle numberToString d (PostCarrier name cnpj tenantId) =
     (case post_carrier d name cnpj tenantId of Inl e \<Rightarrow> d | Inr d' \<Rightarrow> d')"
| "handle numberToString d (PutCarrier i name cnpj) =
     (case put_carrier d i name cnpj of Inl e \<Rightarrow> d | Inr d' \<Rightarrow> d')"
| "handle numberToString d (UploadTables files) = fst (snd (upload_tables numberToString d files))"

text \<open>Every shipment of the second store is one of the first, or has status \<open>audited\<close>.\<close>

abbreviation audited_since :: "db \<Rightarrow> db \<Rightarrow> bool" where
  "audited_since d d' \<equiv> \<forall>c \<in> set (ctes d'). c \<in> set (ctes d) \<or> cte_status c = ''audited''"


section \<open>Example data\<close>

text \<open>The first table and the first weight range of the seed rows.\<close>

definition seed_table :: freight_table where
  "seed_table =
     \<lparr>ft_id = 1, ft_tenant_id = 1, ft_carrier_id = 1,
      ft_name = ''Tabela Padr'' @ [CHR 0xC3, CHR 0xA3] @ ''o 2026'', ft_version = ''v1.0'',
      ft_is_active = 1\<rparr>"

definition seed_range :: weight_range where
  "seed_range =
     \<lparr>wr_id = 1, wr_table_id = 1, min_weight = 0, max_weight = 1000,
      base_value = 500, kg_extra_value = Some 0.5\<rparr>"


text \<open>
  A document of carrier \<open>cnpj\<close> with total \<open>amount\<close> and gross weight \<open>qty\<close>, in the
  wrapped shape.
\<close>

definition example_infCte :: "string \<Rightarrow> string \<Rightarrow> string \<Rightarrow> jsval" where
  "example_infCte cnpj amount qty =
     JObj [(''@_Id'', JStr ''CTe3519''),
           (''emit'', JObj [(''CNPJ'', JStr cnpj)]),
           (''rem'', JObj [(''CNPJ'', JStr ''111'')]),
           (''vPrest'', JObj [(''vTPrest'', JStr amount)]),
           (''infCTeNorm'',
              JObj [(''infCarga'',
                 JObj [(''infQ'', JObj [(''tpMed'', JStr ''PESO BRUTO''),
                                       (''qCarga'', JStr qty)])])])]"

definition example_doc :: "string \<Rightarrow> string \<Rightarrow> string \<Rightarrow> jsval" where
  "example_doc cnpj amount qty =
     JObj [(''cteProc'', JObj [(''CTe'', JObj [(''infCte'', example_infCte cnpj amount qty)])])]"

text \<open>The store after the shipment and audit \<open>1\<close> with the given columns were added to the seed rows.\<close>

definition example_cte :: "string \<Rightarrow> real \<Rightarrow> real \<Rightarrow> cte" where
  "example_cte cnpj amount w =
     \<lparr>cte_id = 1, cte_tenant_id = 1, xml_key = ''3519'', cte_carrier_cnpj = SqlText cnpj,
      tomador_cnpj = SqlText ''111'', total_value = amount, weight = w,
      origin_zip = SqlNull, dest_zip = SqlNull, origin_city = SqlNull, dest_city = SqlNull,
      cfop = SqlNull, icms_value = SqlReal 0, icms_base = SqlReal 0, icms_rate = SqlReal 0,
      cte_status = ''audited''\<rparr>"

definition example_audit :: "real \<Rightarrow> real \<Rightarrow> string option \<Rightarrow> audit" where
  "example_audit calculated diff dt =
     \<lparr>audit_id = 1, audit_cte_id = 1, calculated_value = calculated, difference = diff,
      divergence_type = dt, audit_status = ''open'', contestation_reason = SqlNull\<rparr>"

definition audited_db :: "cte \<Rightarrow> audit \<Rightarrow> db" where
  "audited_db c a = seed_db\<lparr>ctes := [c], audits := [a], seq_ctes := 1, seq_audits := 1\<rparr>"

text \<open>An upload of one XML file, and the batch of a handler that has processed nothing yet.\<close>

definition example_file :: "jsval \<Rightarrow> upload_file" where
  "example_file doc =
     \<lparr>mimetype = ''text/xml'', originalname = ''cte.xml'', as_zip = None, as_xml = doc\<rparr>"

definition empty_batch :: "db \<Rightarrow> batch" where
  "empty_batch d = \<lparr>b_db = d, results = [], processedCount = 0, errorCount = 0\<rparr>"

text \<open>A spreadsheet row with every required field, and the given declared all-in total.\<close>

definition example_row :: "jsval \<Rightarrow> jsval" where
  "example_row allIn =
     JObj [(''codigo'', JStr ''A1''), (''soltransp'', JStr ''S1''), (''origem'', JStr ''SP''),
           (''destino'', JStr ''RJ''), (''icms'', JNum (Fin 12)), (''pedagios'', JNum (Fin 5)),
           (''seguro'', JNum (Fin 1.5)), (''frete_peso'', JNum (Fin 81.5)),
           (''frete_all_in'', allIn)]"

definition example_fields :: "jsnum \<Rightarrow> row_fields" where
  "example_fields allIn =
     \<lparr>rf_peso = Fin 0, rf_codigo = ''A1'', rf_soltransp = ''S1'', rf_origem = ''SP'',
      rf_destino = ''RJ'', rf_frete_valor = Fin 0, rf_obs = [], rf_icms = Fin 12,
      rf_pedagios = Fin 5, rf_seguro = Fin 1.5, rf_frete_peso = Fin 81.5,
      rf_frete_all_in = allIn\<rparr>"

text \<open>The state of an import that has read no row yet, and a spreadsheet of one row.\<close>

definition fresh_import :: import_state where
  "fresh_import = \<lparr>i_db = seed_db, imported = 0, errors = 0\<rparr>"

definition example_sheet :: "jsval \<Rightarrow> sheet_file" where
  "example_sheet row = \<lparr>sheet_name = ''memoria.xlsx'', sheet_rows = Some [row]\<rparr>"

definition example_import :: "nat \<Rightarrow> nat \<Rightarrow> string \<Rightarrow> table_import" where
  "example_import n_imported n_errors status =
     \<lparr>import_id = 1, import_filename = ''memoria.xlsx'', qty_imported = n_imported,
      qty_errors = n_errors, qty_total = n_imported + n_errors, import_status = status\<rparr>"

text \<open>The audit of the first example run after it was contested with a reason.\<close>

definition contested_audit :: audit where
  "contested_audit =
     (example_audit 600.25 (- 0.25) (Some ''value_divergence''))
       \<lparr>audit_status := ''contested'', contestation_reason := SqlText ''valor acima da tabela''\<rparr>"

definition contested_db :: db where
  "contested_db = audited_db (example_cte ''35856333000100'' 600 200.5) contested_audit"

section \<open>Properties\<close>

subsection \<open>Evaluation of the seed store\<close>

lemma seed_find_table:
  "find_table seed_db 1 (JStr ''35856333000100'') = Some seed_table"
  by (simp add: find_table_def find_carrier_def seed_db_def seed_table_def bound_def)

lemma seed_find_range:
  "find_weightRange seed_db (ft_id seed_table) (Fin 200.5) = Some seed_range"
  by (simp add: seed_db_def seed_table_def seed_range_def)

subsection \<open>The charge of a matched weight range\<close>

lemma find_weightRange_in_band:
  assumes "find_weightRange d tableId (Fin w) = Some r"
  shows "min_weight r \<le> w \<and> w \<le> max_weight r"
  using assms by (auto simp: find_Some_iff)

text \<open>
  With ranges that share a bound, the range found is the first of the table that
  contains the weight. A range that is the only one of its table to contain the weight
  is the one found.
\<close>

lemma find_weightRange_only:
  assumes "r \<in> set (weight_ranges d)" and "wr_table_id r = i"
    and "min_weight r \<le> w" and "w \<le> max_weight r"
    and "\<forall>r' \<in> set (weight_ranges d).
           wr_table_id r' = i \<and> min_weight r' \<le> w \<and> w \<le> max_weight r' \<longrightarrow> r' = r"
  shows "find_weightRange d i (Fin w) = Some r"
proof (cases "find_weightRange d i (Fin w)")
  case None
  with assms(1-4) show ?thesis
    by (auto simp: find_None_iff)
next
  case (Some r')
  then have "r' \<in> set (weight_ranges d)"
      "wr_table_id r' = i \<and> min_weight r' \<le> w \<and> w \<le> max_weight r'"
    by (auto simp: find_Some_iff)
  with assms(5) Some show ?thesis
    by blast
qed

lemma range_charge_Fin:
  assumes "kg_extra_value weightRange = Some r"
  shows "range_charge weightRange (Fin w) =
           Fin (base_value weightRange
                + (if r > 0 \<and> w > min_weight weightRange
                   then (w - min_weight weightRange) * r else 0))"
  using assms by (auto simp: range_charge_def Let_def)

text \<open>
  C1. When the table of the carrier is resolved and the weight \<open>w\<close> falls in the range
  found for it (so \<open>min_weight \<le> w \<le> max_weight\<close>), with base value \<open>b\<close> and a marginal
  rate \<open>r\<close>, the calculated value is \<open>b\<close>, plus \<open>(w - min_weight) * r\<close> exactly when
  \<open>r > 0\<close> and \<open>w > min_weight\<close>, and no divergence type is set by the calculation. For
  \<open>r \<ge> 0\<close> this is \<open>b + r * max 0 (w - min_weight)\<close>.
\<close>

theorem charge_of_matched_range:
  assumes "find_table d tenantId carrierCnpj = Some table"
    and "find_weightRange d (ft_id table) (Fin w) = Some weightRange"
    and "kg_extra_value weightRange = Some r"
  shows "min_weight weightRange \<le> w \<and> w \<le> max_weight weightRange
       \<and> calculate d tenantId carrierCnpj totalValue (Fin w) =
           (Fin (base_value weightRange
                 + (if r > 0 \<and> w > min_weight weightRange
                    then (w - min_weight weightRange) * r else 0)), None)
       \<and> (0 \<le> r \<longrightarrow>
            fst (calculate d tenantId carrierCnpj totalValue (Fin w)) =
              Fin (base_value weightRange + r * max 0 (w - min_weight weightRange)))"
proof -
  have band: "min_weight weightRange \<le> w \<and> w \<le> max_weight weightRange"
    using assms(2) by (rule find_weightRange_in_band)
  have calc: "calculate d tenantId carrierCnpj totalValue (Fin w) =
                (range_charge weightRange (Fin w), None)"
    using assms(1,2) by (simp add: calculate_def)
  have formula: "0 \<le> r \<Longrightarrow>
      (if r > 0 \<and> w > min_weight weightRange then (w - min_weight weightRange) * r else 0)
        = r * max 0 (w - min_weight weightRange)"
    by (auto simp: max_def)
  show ?thesis
    using band calc formula by (simp add: range_charge_Fin [OF assms(3)])
qed

theorem charge_of_matched_range_witness:
  "find_table seed_db 1 (JStr ''35856333000100'') = Some seed_table
   \<and> find_weightRange seed_db (ft_id seed_table) (Fin 200.5) = Some seed_range
   \<and> kg_extra_value seed_range = Some 0.5
   \<and> calculate seed_db 1 (JStr ''35856333000100'') (Fin 600) (Fin 200.5) = (Fin 600.25, None)"
proof -
  have r: "kg_extra_value seed_range = Some 0.5"
    by (simp add: seed_range_def)
  show ?thesis
    using charge_of_matched_range [OF seed_find_table seed_find_range r, of "Fin 600"]
      seed_find_table seed_find_range r
    by (simp add: seed_range_def)
qed

subsection \<open>What a successful run of processXml wrote\<close>

lemma insertCte_effect:
  assumes "insertCte d tenantId xmlKey cc tc totalValue weight' oz dz oc dc cf iv ib ir status
             = Inr (d1, cteId)"
  shows "\<exists>c tv w. ctes d1 = ctes d @ [c] \<and> cte_id c = cteId \<and> xml_key c = xmlKey
           \<and> totalValue = Fin tv \<and> weight' = Fin w \<and> total_value c = tv \<and> weight c = w
           \<and> cte_status c = status"
    and "carriers d1 = carriers d" and "freight_tables d1 = freight_tables d"
    and "weight_ranges d1 = weight_ranges d" and "audits d1 = audits d"
    and "memory_calculations d1 = memory_calculations d"
proof -
  from assms have nn: "totalValue \<noteq> NaN" "weight' \<noteq> NaN"
    by (auto simp: insertCte_def split: if_splits)
  then obtain tv w where tw: "totalValue = Fin tv" "weight' = Fin w"
    by (cases totalValue; cases weight') auto
  from assms tw
  show "\<exists>c tv w. ctes d1 = ctes d @ [c] \<and> cte_id c = cteId \<and> xml_key c = xmlKey
           \<and> totalValue = Fin tv \<and> weight' = Fin w \<and> total_value c = tv \<and> weight c = w
           \<and> cte_status c = status"
    by (auto simp: insertCte_def Let_def split: if_splits)
  from assms show "carriers d1 = carriers d" "freight_tables d1 = freight_tables d"
    "weight_ranges d1 = weight_ranges d" "audits d1 = audits d"
    "memory_calculations d1 = memory_calculations d"
    by (auto simp: insertCte_def Let_def split: if_splits)
qed

lemma calculate_cong:
  assumes "carriers d1 = carriers d" and "freight_tables d1 = freight_tables d"
    and "weight_ranges d1 = weight_ranges d"
  shows "calculate d1 t cc tv w = calculate d t cc tv w"
proof -
  have wr: "find_weightRange d1 i w = find_weightRange d i w" for i
    using assms(3) by (cases w) simp_all
  have "find_table d1 t cc = find_table d t cc"
    unfolding find_table_def find_carrier_def assms(1) assms(2) ..
  then show ?thesis
    unfolding calculate_def wr by simp
qed

lemma audit_cte_effect:
  assumes "audit_cte d1 t cteId xmlKey cc totalValue weight' = (d', Inr r)"
  shows "r = Success cteId xmlKey"
    and "ctes d' = ctes d1"
    and "\<exists>a cv df. audits d' = audits d1 @ [a] \<and> audit_cte_id a = cteId
           \<and> audit_status a = ''open'' \<and> contestation_reason a = SqlNull
           \<and> calculated_value a = cv \<and> difference a = df
           \<and> fst (calculate d1 t cc totalValue weight') = Fin cv
           \<and> classify totalValue (Fin cv) (snd (calculate d1 t cc totalValue weight'))
               = (Fin df, divergence_type a)"
proof -
  obtain calculated dt0 where c: "calculate d1 t cc totalValue weight' = (calculated, dt0)"
    by (cases "calculate d1 t cc totalValue weight'")
  obtain diff dt where k: "classify totalValue calculated dt0 = (diff, dt)"
    by (cases "classify totalValue calculated dt0")
  from assms c k have ins: "insertAudit d1 cteId calculated diff dt = Inr d'"
    and r: "r = Success cteId xmlKey"
    by (auto simp: audit_cte_def split: sum.splits)
  from ins have nn: "calculated \<noteq> NaN" "diff \<noteq> NaN"
    by (auto simp: insertAudit_def split: if_splits)
  then obtain cv df where f: "calculated = Fin cv" "diff = Fin df"
    by (cases calculated; cases diff) auto
  show "r = Success cteId xmlKey" by (rule r)
  from ins show "ctes d' = ctes d1"
    by (auto simp: insertAudit_def split: if_splits)
  from ins c k f
  show "\<exists>a cv df. audits d' = audits d1 @ [a] \<and> audit_cte_id a = cteId
           \<and> audit_status a = ''open'' \<and> contestation_reason a = SqlNull
           \<and> calculated_value a = cv \<and> difference a = df
           \<and> fst (calculate d1 t cc totalValue weight') = Fin cv
           \<and> classify totalValue (Fin cv) (snd (calculate d1 t cc totalValue weight'))
               = (Fin df, divergence_type a)"
    by (auto simp: insertAudit_def split: if_splits)
qed

text \<open>
  A successful run appends one shipment and one audit; the audit holds the value
  calculated for the stored total and weight, and their classification.
\<close>

lemma processXml_Success:
  assumes "processXml d jsonObj t = (d', Inr (Success cteId xmlKey))"
    and "find_infCte jsonObj = Inr infCte"
  shows "\<exists>c a. ctes d' = ctes d @ [c] \<and> audits d' = audits d @ [a]
           \<and> cte_id c = cteId \<and> xml_key c = xmlKey \<and> cte_status c = ''audited''
           \<and> audit_cte_id a = cteId \<and> audit_status a = ''open''
           \<and> totalValue_of infCte = Fin (total_value c)
           \<and> weight_of infCte = Inr (Fin (weight c))
           \<and> fst (calculate d t (carrierCnpj_of infCte) (Fin (total_value c)) (Fin (weight c)))
               = Fin (calculated_value a)
           \<and> classify (Fin (total_value c)) (Fin (calculated_value a))
               (snd (calculate d t (carrierCnpj_of infCte) (Fin (total_value c)) (Fin (weight c))))
               = (Fin (difference a), divergence_type a)"
proof -
  from assms obtain k w d1 cid where
    key: "xmlKey_of infCte = Inr k" and
    w: "weight_of infCte = Inr w" and
    ins: "insertCte d t k (carrierCnpj_of infCte) (tomadorCnpjValue_of infCte)
            (totalValue_of infCte) w
            (get (get (get infCte ''rem'') ''enderReme'') ''CEP'')
            (get (get (get infCte ''dest'') ''enderDest'') ''CEP'')
            (get (get infCte ''ide'') ''xMunIni'') (get (get infCte ''ide'') ''xMunFim'')
            (get (get infCte ''ide'') ''CFOP'')
            (icms_field infCte ''vICMS'') (icms_field infCte ''vBC'')
            (icms_field infCte ''pICMS'') ''audited'' = Inr (d1, cid)" and
    aud: "audit_cte d1 t cid k (carrierCnpj_of infCte) (totalValue_of infCte) w
            = (d', Inr (Success cteId xmlKey))"
    by (auto simp: processXml_def Let_def split: sum.splits if_splits prod.splits)
  from audit_cte_effect(1) [OF aud] have eq: "cid = cteId" "k = xmlKey" by simp_all
  from insertCte_effect(1) [OF ins] obtain c tv wv where
    c: "ctes d1 = ctes d @ [c]" "cte_id c = cid" "xml_key c = k"
       "totalValue_of infCte = Fin tv" "w = Fin wv" "total_value c = tv" "weight c = wv"
       "cte_status c = ''audited''"
    by blast
  have same: "calculate d1 t cc x y = calculate d t cc x y" for cc x y
    by (rule calculate_cong) (rule insertCte_effect(2-4) [OF ins])+
  from audit_cte_effect(3) [OF aud] obtain a where
    a: "audits d' = audits d1 @ [a]" "audit_cte_id a = cid" "audit_status a = ''open''"
       "fst (calculate d1 t (carrierCnpj_of infCte) (totalValue_of infCte) w)
          = Fin (calculated_value a)"
       "classify (totalValue_of infCte) (Fin (calculated_value a))
          (snd (calculate d1 t (carrierCnpj_of infCte) (totalValue_of infCte) w))
          = (Fin (difference a), divergence_type a)"
    by blast
  have "ctes d' = ctes d @ [c]"
    using audit_cte_effect(2) [OF aud] c(1) by simp
  moreover have "audits d' = audits d @ [a]"
    using a(1) insertCte_effect(5) [OF ins] by simp
  ultimately show ?thesis
    using c a eq w by (auto simp: same)
qed

subsection \<open>Runs of the example documents\<close>

lemmas parse_defs =
  parseFloat_str_def take_sign_def is_space_def is_digit_def digit_val_def digits_val_def
  scale10_def exponent_of_def

lemmas extract_defs =
  find_infCte_def xmlKey_of_def totalValue_of_def icms_field_def icmsData_of_def weight_of_def
  tomadorCnpjValue_of_def carrierCnpj_of_def js_or_def

lemmas store_defs =
  existingCte_def insertCte_def bindable_def bound_def find_table_def find_carrier_def
  calculate_def range_charge_def classify_def insertAudit_def audit_cte_def

lemma example_find_infCte:
  "find_infCte (example_doc cnpj amount qty) = Inr (example_infCte cnpj amount qty)"
  by (simp add: find_infCte_def example_doc_def example_infCte_def js_or_def)

lemma run_value_divergence:
  "processXml seed_db (example_doc ''35856333000100'' ''600.00'' ''200.5'') 1 =
     (audited_db (example_cte ''35856333000100'' 600 200.5)
                 (example_audit 600.25 (- 0.25) (Some ''value_divergence'')),
      Inr (Success 1 ''3519''))"
  by (simp add: processXml_def example_doc_def example_infCte_def extract_defs parse_defs
      store_defs seed_db_def audited_db_def example_cte_def example_audit_def)



subsection \<open>Classification of the divergence\<close>










subsection \<open>A run that throws\<close>

lemma calculate_Fin:
  "\<exists>cv. fst (calculate d t cc (Fin tv) (Fin w)) = Fin cv"
  by (auto simp: calculate_def range_charge_def Let_def split: option.splits)

lemma classify_Fin_total:
  "\<exists>df dt. classify (Fin tv) (Fin cv) s = (Fin df, dt)"
  by (simp add: classify_def Let_def)

lemma audit_cte_returns:
  "\<exists>d' r. audit_cte d1 t cteId xmlKey cc (Fin tv) (Fin w) = (d', Inr r)"
proof -
  obtain cv s where c: "calculate d1 t cc (Fin tv) (Fin w) = (Fin cv, s)"
    using calculate_Fin [of d1 t cc tv w]
    by (cases "calculate d1 t cc (Fin tv) (Fin w)") auto
  obtain df dt where k: "classify (Fin tv) (Fin cv) s = (Fin df, dt)"
    using classify_Fin_total by blast
  show ?thesis
    by (simp add: audit_cte_def c k insertAudit_def)
qed

text \<open>A run that throws has written nothing: once the shipment is in, the audit follows.\<close>

lemma processXml_throw:
  assumes "processXml d jsonObj t = (d', Inl e)"
  shows "d' = d"
proof (rule ccontr)
  assume neq: "d' \<noteq> d"
  with assms obtain infCte k w d1 cid where
    ins: "insertCte d t k (carrierCnpj_of infCte) (tomadorCnpjValue_of infCte)
            (totalValue_of infCte) w
            (get (get (get infCte ''rem'') ''enderReme'') ''CEP'')
            (get (get (get infCte ''dest'') ''enderDest'') ''CEP'')
            (get (get infCte ''ide'') ''xMunIni'') (get (get infCte ''ide'') ''xMunFim'')
            (get (get infCte ''ide'') ''CFOP'')
            (icms_field infCte ''vICMS'') (icms_field infCte ''vBC'')
            (icms_field infCte ''pICMS'') ''audited'' = Inr (d1, cid)" and
    aud: "audit_cte d1 t cid k (carrierCnpj_of infCte) (totalValue_of infCte) w = (d', Inl e)"
    by (auto simp: processXml_def Let_def split: sum.splits if_splits prod.splits)
  from insertCte_effect(1) [OF ins] obtain tv wv where
    "totalValue_of infCte = Fin tv" "w = Fin wv"
    by blast
  with aud audit_cte_returns [of d1 t cid k "carrierCnpj_of infCte" tv wv]
  show False by auto
qed

lemma processXml_Skipped:
  assumes "processXml d jsonObj t = (d', Inr (Skipped k))"
  shows "d' = d"
  using assms audit_cte_effect(1)
  by (fastforce simp: processXml_def Let_def split: sum.splits if_splits prod.splits)

lemma processXml_Failed:
  "processXml d jsonObj t \<noteq> (d', Inr (Failed e n))"
  using audit_cte_effect(1)
  by (fastforce simp: processXml_def Let_def split: sum.splits if_splits prod.splits)

text \<open>Whatever the outcome, the shipments after a run are those before it, or one more, audited.\<close>

lemma processXml_ctes:
  assumes "processXml d jsonObj t = (d', r)"
  shows "ctes d' = ctes d \<or> (\<exists>c. ctes d' = ctes d @ [c] \<and> cte_status c = ''audited'')"
proof (cases r)
  case (Inl e)
  with assms processXml_throw show ?thesis by blast
next
  case (Inr res)
  show ?thesis
  proof (cases res)
    case (Success cid k)
    from assms Inr Success obtain infCte where inf: "find_infCte jsonObj = Inr infCte"
      by (auto simp: processXml_def split: sum.splits)
    from processXml_Success [OF assms [unfolded Inr Success] inf] show ?thesis by blast
  next
    case (Skipped k)
    with assms Inr processXml_Skipped show ?thesis by blast
  next
    case (Failed e n)
    with assms Inr processXml_Failed show ?thesis by blast
  qed
qed

subsection \<open>The duplicate guard\<close>

lemma processXml_duplicate:
  assumes "find_infCte jsonObj = Inr infCte" and "xmlKey_of infCte = Inr xmlKey"
    and "c \<in> set (ctes d)" and "xml_key c = xmlKey"
  shows "processXml d jsonObj t = (d, Inr (Skipped xmlKey))"
proof -
  have "existingCte d xmlKey \<noteq> None"
    using assms(3,4) by (auto simp: existingCte_def find_None_iff)
  then show ?thesis
    using assms(1,2) by (simp add: processXml_def)
qed

text \<open>
  C8. Submitting a document whose key already has a shipment returns, without a throw,
  the outcome that is not a success and carries the message that the document was
  already imported; the store is unchanged, so there is no second shipment and no
  second audit; and the batch handler, for an uploaded XML file as for an entry of an
  archive, adds the outcome to the results and 1 to \<open>errorCount\<close>, leaving
  \<open>processedCount\<close> as it was.
\<close>

theorem duplicate_is_tallied_as_failure:
  assumes "find_infCte jsonObj = Inr infCte" and "xmlKey_of infCte = Inr xmlKey"
    and "c \<in> set (ctes (b_db b))" and "xml_key c = xmlKey"
  shows "processXml (b_db b) jsonObj tenantId = (b_db b, Inr (Skipped xmlKey))
       \<and> \<not> success (Skipped xmlKey)
       \<and> run_xml name jsonObj b =
           b\<lparr>results := results b @ [Skipped xmlKey], errorCount := errorCount b + 1\<rparr>
       \<and> processedCount (run_xml name jsonObj b) = processedCount b
       \<and> ctes (b_db (run_xml name jsonObj b)) = ctes (b_db b)
       \<and> audits (b_db (run_xml name jsonObj b)) = audits (b_db b)
       \<and> (endsWith (toLowerCase name) ''.xml'' \<longrightarrow>
            zip_entry b (name, jsonObj) =
              b\<lparr>results := results b @ [Skipped xmlKey], errorCount := errorCount b + 1\<rparr>)
       \<and> (\<not> endsWith name ''.zip'' \<longrightarrow>
            batch_file b \<lparr>mimetype = ''text/xml'', originalname = name, as_zip = z,
                          as_xml = jsonObj\<rparr> =
              b\<lparr>results := results b @ [Skipped xmlKey], errorCount := errorCount b + 1\<rparr>)"
proof -
  have p: "processXml (b_db b) jsonObj t = (b_db b, Inr (Skipped xmlKey))" for t
    using assms by (rule processXml_duplicate)
  have r: "run_xml name jsonObj b =
             b\<lparr>results := results b @ [Skipped xmlKey], errorCount := errorCount b + 1\<rparr>"
    by (simp add: run_xml_def p tally_def Let_def)
  show ?thesis
    by (simp add: p r zip_entry_def batch_file_def)
qed

theorem duplicate_is_tallied_as_failure_witness:
  "find_infCte (example_doc ''999'' ''600.00'' ''200.5'')
     = Inr (example_infCte ''999'' ''600.00'' ''200.5'')
   \<and> xmlKey_of (example_infCte ''999'' ''600.00'' ''200.5'') = Inr ''3519''
   \<and> example_cte ''999'' 600 200.5
       \<in> set (ctes (audited_db (example_cte ''999'' 600 200.5)
                      (example_audit 600 0 (Some ''table_error''))))
   \<and> xml_key (example_cte ''999'' 600 200.5) = ''3519''
   \<and> upload_batch (audited_db (example_cte ''999'' 600 200.5)
                      (example_audit 600 0 (Some ''table_error'')))
        [example_file (example_doc ''999'' ''600.00'' ''200.5'')] =
       (200, \<lparr>b_db = audited_db (example_cte ''999'' 600 200.5)
                        (example_audit 600 0 (Some ''table_error'')),
              results = [Skipped ''3519''], processedCount = 0, errorCount = 1\<rparr>)"
proof -
  define d where "d = audited_db (example_cte ''999'' 600 200.5)
                        (example_audit 600 0 (Some ''table_error''))"
  note f = example_find_infCte [of "''999''" "''600.00''" "''200.5''"]
  have k: "xmlKey_of (example_infCte ''999'' ''600.00'' ''200.5'') = Inr ''3519''"
    by (simp add: xmlKey_of_def example_infCte_def)
  have m: "example_cte ''999'' 600 200.5 \<in> set (ctes (b_db (empty_batch d)))"
    by (simp add: empty_batch_def d_def audited_db_def)
  have x: "xml_key (example_cte ''999'' 600 200.5) = ''3519''"
    by (simp add: example_cte_def)
  have z: "\<not> endsWith ''cte.xml'' ''.zip''"
    by (simp add: endsWith_def)
  from duplicate_is_tallied_as_failure [OF f k m x, of 1 "''cte.xml''" None] z
  have "batch_file (empty_batch d) (example_file (example_doc ''999'' ''600.00'' ''200.5'')) =
          \<lparr>b_db = d, results = [Skipped ''3519''], processedCount = 0, errorCount = 1\<rparr>"
    by (simp add: example_file_def empty_batch_def)
  then have "upload_batch d [example_file (example_doc ''999'' ''600.00'' ''200.5'')] =
          (200, \<lparr>b_db = d, results = [Skipped ''3519''], processedCount = 0, errorCount = 1\<rparr>)"
    by (simp add: upload_batch_def empty_batch_def)
  with f k m x show ?thesis
    by (simp add: d_def empty_batch_def)
qed

subsection \<open>The status of a shipment\<close>

lemma audited_since_trans:
  "audited_since d d' \<Longrightarrow> audited_since d' d'' \<Longrightarrow> audited_since d d''"
  by blast

lemma run_xml_db:
  "b_db (run_xml n doc b) = fst (processXml (b_db b) doc 1)"
  by (simp add: run_xml_def tally_def caught_def Let_def split: prod.splits sum.splits)

lemma run_xml_audited: "audited_since (b_db b) (b_db (run_xml n doc b))"
proof -
  obtain d' r where p: "processXml (b_db b) doc 1 = (d', r)"
    by (cases "processXml (b_db b) doc 1")
  have "b_db (run_xml n doc b) = d'"
    by (simp only: run_xml_db p fst_conv)
  with processXml_ctes [OF p] show ?thesis
    by auto
qed

lemma zip_entry_audited: "audited_since (b_db b) (b_db (zip_entry b entry))"
  using run_xml_audited by (simp add: zip_entry_def)

lemma foldl_audited:
  assumes step: "\<And>b x. audited_since (b_db b) (b_db (f b x))"
  shows "audited_since (b_db b) (b_db (foldl f b xs))"
proof (induction xs arbitrary: b)
  case Nil
  show ?case by simp
next
  case (Cons x xs)
  have "audited_since (b_db b) (b_db (f b x))" by (rule step)
  moreover have "audited_since (b_db (f b x)) (b_db (foldl f (f b x) xs))" by (rule Cons.IH)
  ultimately have "audited_since (b_db b) (b_db (foldl f (f b x) xs))"
    by (rule audited_since_trans)
  then show ?case by simp
qed

lemma batch_file_audited: "audited_since (b_db b) (b_db (batch_file b file))"
proof (cases "mimetype file = ''application/zip'' \<or> endsWith (originalname file) ''.zip''")
  case True
  show ?thesis
  proof (cases "as_zip file")
    case None
    with True show ?thesis by (simp add: batch_file_def caught_def)
  next
    case (Some entries)
    have "audited_since (b_db b) (b_db (foldl zip_entry b entries))"
      by (rule foldl_audited) (rule zip_entry_audited)
    with True Some show ?thesis by (simp add: batch_file_def)
  qed
next
  case False
  then show ?thesis
    using run_xml_audited by (simp add: batch_file_def)
qed

lemma upload_batch_audited: "audited_since d (b_db (snd (upload_batch d files)))"
proof -
  let ?b0 = "\<lparr>b_db = d, results = [], processedCount = 0, errorCount = 0\<rparr>"
  have "audited_since (b_db ?b0) (b_db (foldl batch_file ?b0 files))"
    by (rule foldl_audited) (rule batch_file_audited)
  then show ?thesis
    by (simp add: upload_batch_def Let_def)
qed

text \<open>The spreadsheet import leaves the shipments alone.\<close>

lemma import_row_ctes: "ctes (i_db (import_row f i n row st)) = ctes (i_db st)"
  by (simp add: import_row_def insertError_def insertMemory_def Let_def
      split: option.splits prod.splits)

lemma import_rows_ctes: "ctes (i_db (import_rows f i n rows st)) = ctes (i_db st)"
  by (induction rows arbitrary: n st) (simp_all add: import_row_ctes)

lemma import_file_ctes: "ctes (fst (import_file f acc file)) = ctes (fst acc)"
  by (simp add: import_file_def Let_def import_rows_ctes split: option.splits)

lemma upload_tables_ctes: "ctes (fst (snd (upload_tables f d files))) = ctes d"
proof -
  have "ctes (fst (foldl (import_file f) acc files)) = ctes (fst acc)" for acc
    by (induction files arbitrary: acc) (simp_all add: import_file_ctes)
  then show ?thesis
    by (simp add: upload_tables_def)
qed

lemma handle_audited: "audited_since d (handle f d req)"
proof (cases req)
  case (UploadBatch files)
  then show ?thesis using upload_batch_audited [where d = d and files = files] by simp
next
  case (UploadTables files)
  then show ?thesis by (simp add: upload_tables_ctes)
qed (auto simp: contest_def waive_audit_def waive_memory_def delete_memory_def
      post_carrier_def put_carrier_def split: sum.splits if_splits)

lemma requests_audited:
  assumes "\<forall>c \<in> set (ctes d). cte_status c = ''audited''"
  shows "\<forall>c \<in> set (ctes (foldl (handle f) d reqs)). cte_status c = ''audited''"
  using assms
proof (induction reqs arbitrary: d)
  case Nil
  then show ?case by simp
next
  case (Cons req reqs)
  have "\<forall>c \<in> set (ctes (handle f d req)). cte_status c = ''audited''"
    using handle_audited [where d = d and f = f and req = req] Cons.prems by blast
  from Cons.IH [OF this] show ?case by simp
qed

text \<open>
  C10. Whatever \<open>processXml\<close> returns, the shipments after it are those before it, or
  one more, which has status \<open>audited\<close>: the shipment is inserted with that status, and
  the store that holds it is the one rate resolution then reads. Every shipment in the
  store after a request was there before or has status \<open>audited\<close>; and after any
  sequence of requests on the seed store every shipment has status \<open>audited\<close>, none
  the \<open>pending\<close> of the schema's default.
\<close>

theorem shipments_are_created_audited:
  "(processXml d jsonObj tenantId = (d', r) \<longrightarrow>
      ctes d' = ctes d \<or> (\<exists>c. ctes d' = ctes d @ [c] \<and> cte_status c = ''audited''))
   \<and> (\<forall>c \<in> set (ctes (handle numberToString d req)).
        c \<in> set (ctes d) \<or> cte_status c = ''audited'')
   \<and> (\<forall>c \<in> set (ctes (foldl (handle numberToString) seed_db reqs)).
        cte_status c = ''audited'' \<and> cte_status c \<noteq> ''pending'')"
proof -
  have seed: "\<forall>c \<in> set (ctes seed_db). cte_status c = ''audited''"
    by (simp add: seed_db_def)
  have "\<forall>c \<in> set (ctes (foldl (handle numberToString) seed_db reqs)). cte_status c = ''audited''"
    by (rule requests_audited) (rule seed)
  then show ?thesis
    using processXml_ctes [of d jsonObj tenantId d' r]
      handle_audited [where d = d and f = numberToString and req = req]
    by auto
qed

theorem shipments_are_created_audited_witness:
  "processXml seed_db (example_doc ''35856333000100'' ''600.00'' ''200.5'') 1 =
     (audited_db (example_cte ''35856333000100'' 600 200.5)
                 (example_audit 600.25 (- 0.25) (Some ''value_divergence'')),
      Inr (Success 1 ''3519''))
   \<and> ctes (handle (\<lambda>r. []) seed_db
        (UploadBatch [example_file (example_doc ''35856333000100'' ''600.00'' ''200.5'')]))
       = ctes seed_db @ [example_cte ''35856333000100'' 600 200.5]
   \<and> example_cte ''35856333000100'' 600 200.5 \<notin> set (ctes seed_db)
   \<and> cte_status (example_cte ''35856333000100'' 600 200.5) = ''audited''"
proof -
  let ?doc = "example_doc ''35856333000100'' ''600.00'' ''200.5''"
  let ?c = "example_cte ''35856333000100'' 600 200.5"
  let ?req = "UploadBatch [example_file ?doc]"
  note r = run_value_divergence
  have z: "\<not> endsWith ''cte.xml'' ''.zip''"
    by (simp add: endsWith_def)
  have e: "ctes seed_db = []"
    by (simp add: seed_db_def)
  have h: "ctes (handle (\<lambda>r. []) seed_db ?req) = ctes seed_db @ [?c]"
    using z by (simp add: upload_batch_def batch_file_def example_file_def run_xml_def r
        tally_def audited_db_def e del: One_nat_def)
  have n: "?c \<notin> set (ctes seed_db)"
    by (simp add: e)
  from shipments_are_created_audited
         [where d = seed_db and numberToString = "\<lambda>r. []" and req = ?req]
  have "\<forall>c \<in> set (ctes (handle (\<lambda>r. []) seed_db ?req)).
          c \<in> set (ctes seed_db) \<or> cte_status c = ''audited''"
    by blast
  with h n have "cte_status ?c = ''audited''"
    by simp
  with r h n show ?thesis
    by simp
qed

subsection \<open>Rows of a spreadsheet\<close>

lemmas row_defs =
  read_row_def num_field_def text_field_def first_of_def js_or_def trim_def is_space_def
  CODIGO_def PEDAGIOS_def

lemma example_read_row:
  "read_row f (example_row (JNum n)) = example_fields n"
  by (cases n) (simp_all add: example_row_def example_fields_def row_defs)

lemma example_read_row_absent:
  "read_row f (example_row Undefined) = example_fields (Fin 0)"
  by (simp add: example_row_def example_fields_def row_defs)

lemma example_validate: "validate (example_fields n) = None"
  by (simp add: validate_def example_fields_def)




text \<open>
  C5. The code at a row that passes the validation of the required fields and
  declares an all-in total of 0, or none: line 702 assigns the message and nothing is
  done with it. The row leaves the state of the import as it was: no row error is
  stored, \<open>errors\<close> is not incremented, and no reconciliation row is stored. A file with
  this one row ends with 0 imported, 0 errors, 0 rows in total and status \<open>success\<close>.
\<close>

theorem nonpositive_all_in_row_is_dropped:
  "validate (read_row f (example_row (JNum (Fin 0)))) = None
   \<and> import_row f importId rowNum (example_row (JNum (Fin 0))) st = st
   \<and> import_row f importId rowNum (example_row (JNum (Fin (- 5)))) st = st
   \<and> import_row f importId rowNum (example_row Undefined) st = st
   \<and> import_file f (seed_db, []) (example_sheet (example_row (JNum (Fin 0)))) =
       (seed_db\<lparr>table_imports := [example_import 0 0 ''success''], seq_imports := 1\<rparr>,
        [(''memoria.xlsx'', None)])"
proof -
  have drop: "import_row f importId rowNum (example_row (JNum (Fin x))) st = st" if "x \<le> 0"
    for x st importId rowNum
    using that
    by (simp add: import_row_def example_read_row example_validate)
      (simp add: example_row_def example_fields_def)
  have absent: "import_row f importId rowNum (example_row Undefined) st = st"
    by (simp add: import_row_def example_read_row_absent example_validate)
      (simp add: example_row_def example_fields_def)
  have v: "validate (read_row f (example_row (JNum (Fin 0)))) = None"
    by (simp only: example_read_row example_validate)
  have e: "table_imports seed_db = []" "seq_imports seed_db = 0"
    by (simp_all add: seed_db_def)
  have whole: "import_file f (seed_db, []) (example_sheet (example_row (JNum (Fin 0)))) =
       (seed_db\<lparr>table_imports := [example_import 0 0 ''success''], seq_imports := 1\<rparr>,
        [(''memoria.xlsx'', None)])"
    by (simp add: import_file_def example_sheet_def Let_def drop e example_import_def
        del: One_nat_def)
  show ?thesis
    using v drop [of 0] drop [of "- 5"] absent whole by simp
qed

theorem nonpositive_all_in_row_is_dropped_witness:
  "import_row (\<lambda>r. []) 1 2 (example_row (JNum (Fin 0))) fresh_import = fresh_import
   \<and> errors fresh_import = 0 \<and> import_errors (i_db fresh_import) = []
   \<and> memory_calculations (i_db fresh_import) = []"
  using nonpositive_all_in_row_is_dropped [of "\<lambda>r. []" 1 2 fresh_import]
  by (simp add: fresh_import_def seed_db_def)

subsection \<open>A declared total that is not a number\<close>

text \<open>
  C7. The code at a document whose \<open>vTPrest\<close> reads \<open>abc\<close>: the default \<open>"0"\<close> of
  line 243 replaces only a missing or empty field, so the declared total is
  \<open>parseFloat("abc")\<close>, which is \<open>NaN\<close> and not 0; the insert of the shipment then
  fails on the NOT NULL column \<open>total_value\<close>, so \<open>processXml\<close> throws and nothing is
  stored. An empty field does give 0, and the spreadsheet's \<open>getNum\<close> falls back to 0
  on the same text.
\<close>

theorem unparseable_total_is_NaN:
  "totalValue_of (example_infCte cnpj ''abc'' qty) = NaN
   \<and> processXml seed_db (example_doc ''35856333000100'' ''abc'' ''200.5'') 1
       = (seed_db, Inl NotNullConstraint)
   \<and> totalValue_of (example_infCte cnpj [] qty) = Fin 0
   \<and> getNum (JStr ''abc'') = Fin 0"
proof -
  have a: "totalValue_of (example_infCte cnpj ''abc'' qty) = NaN"
    by (simp add: totalValue_of_def example_infCte_def js_or_def parse_defs)
  have b: "processXml seed_db (example_doc ''35856333000100'' ''abc'' ''200.5'') 1
             = (seed_db, Inl NotNullConstraint)"
    by (simp add: processXml_def example_doc_def example_infCte_def extract_defs parse_defs
        store_defs seed_db_def)
  have c: "getNum (JStr ''abc'') = Fin 0"
    by (simp add: parse_defs)
  have e: "totalValue_of (example_infCte cnpj [] qty) = Fin 0"
    by (simp add: totalValue_of_def example_infCte_def js_or_def parse_defs)
  from a b c e show ?thesis by simp
qed

subsection \<open>Contesting and waiving an audit\<close>

lemma contest_effect:
  assumes "a \<in> set (audits d)" and "audit_id a = i" and "bind reason = Inr v"
  shows "\<exists>d'. contest d i reason = Inr d'
           \<and> a\<lparr>audit_status := ''contested'', contestation_reason := v\<rparr> \<in> set (audits d')
           \<and> ctes d' = ctes d \<and> length (audits d') = length (audits d)"
  using assms by (force simp: contest_def)

lemma waive_audit_effect:
  assumes "a \<in> set (audits d)" and "audit_id a = i"
  shows "a\<lparr>audit_status := ''waived''\<rparr> \<in> set (audits (waive_audit d i))"
  using assms by (force simp: waive_audit_def)

lemma waive_memory_effect:
  assumes "m \<in> set (memory_calculations d)" and "mc_id m = j"
  shows "m\<lparr>mc_status := ''ABONADO''\<rparr> \<in> set (memory_calculations (waive_memory d j))"
  using assms by (force simp: waive_memory_def)

text \<open>
  C6, as the code has it. For every audit of the store, the endpoint given a reason
  that is a string sets the status of the audit to \<open>contested\<close> and stores the reason.
  Given no reason (the body has none, or has null) it does not fail: it sets the
  status to \<open>contested\<close> and stores NULL as the reason. Only the form of the user
  interface asks for a reason: without one it sends nothing, and the store stays as
  it is.
\<close>

theorem contest_takes_the_reason_as_given:
  assumes "a \<in> set (audits d)" and "audit_id a = auditId"
  shows "(\<exists>d'. contest d auditId (JStr reason) = Inr d'
            \<and> a\<lparr>audit_status := ''contested'', contestation_reason := SqlText reason\<rparr>
                \<in> set (audits d'))
       \<and> (\<exists>d'. contest d auditId Undefined = Inr d'
            \<and> a\<lparr>audit_status := ''contested'', contestation_reason := SqlNull\<rparr>
                \<in> set (audits d'))
       \<and> (\<exists>d'. contest d auditId Null = Inr d'
            \<and> a\<lparr>audit_status := ''contested'', contestation_reason := SqlNull\<rparr>
                \<in> set (audits d'))
       \<and> submitContest d (Some auditId) [] = d"
proof -
  have s: "bind (JStr reason) = Inr (SqlText reason)" by simp
  have u: "bind Undefined = Inr SqlNull" by simp
  have n: "bind Null = Inr SqlNull" by simp
  show ?thesis
    using contest_effect [OF assms s] contest_effect [OF assms u] contest_effect [OF assms n]
    by (auto simp: submitContest_def)
qed

theorem contest_takes_the_reason_as_given_witness:
  "example_audit 600.25 (- 0.25) (Some ''value_divergence'')
     \<in> set (audits (audited_db (example_cte ''35856333000100'' 600 200.5)
                      (example_audit 600.25 (- 0.25) (Some ''value_divergence''))))
   \<and> audit_id (example_audit 600.25 (- 0.25) (Some ''value_divergence'')) = 1
   \<and> contest (audited_db (example_cte ''35856333000100'' 600 200.5)
                (example_audit 600.25 (- 0.25) (Some ''value_divergence''))) 1
        (JStr ''valor acima da tabela'')
       = Inr (audited_db (example_cte ''35856333000100'' 600 200.5)
                ((example_audit 600.25 (- 0.25) (Some ''value_divergence''))
                   \<lparr>audit_status := ''contested'',
                    contestation_reason := SqlText ''valor acima da tabela''\<rparr>))"
proof -
  let ?a = "example_audit 600.25 (- 0.25) (Some ''value_divergence'')"
  let ?d = "audited_db (example_cte ''35856333000100'' 600 200.5) ?a"
  have m: "?a \<in> set (audits ?d)"
    by (simp add: audited_db_def)
  have i: "audit_id ?a = 1"
    by (simp add: example_audit_def)
  from contest_takes_the_reason_as_given [OF m i, of "''valor acima da tabela''"]
  obtain d' where d': "contest ?d 1 (JStr ''valor acima da tabela'') = Inr d'"
    by blast
  then have "d' = audited_db (example_cte ''35856333000100'' 600 200.5)
                    (?a\<lparr>audit_status := ''contested'',
                        contestation_reason := SqlText ''valor acima da tabela''\<rparr>)"
    by (auto simp: contest_def audited_db_def example_audit_def seed_db_def)
  with d' m i show ?thesis
    by simp
qed

text \<open>
  The claim as the specification has it fails on the audit of the first example run:
  contesting it with no reason in the body, with null or with the empty text is not
  refused, and the status of the audit goes from \<open>open\<close> to \<open>contested\<close>.
\<close>

theorem contest_without_reason_counterexample:
  "audit_status (example_audit 600.25 (- 0.25) (Some ''value_divergence'')) = ''open''
   \<and> contest (audited_db (example_cte ''35856333000100'' 600 200.5)
                (example_audit 600.25 (- 0.25) (Some ''value_divergence''))) 1 Undefined
       = Inr (audited_db (example_cte ''35856333000100'' 600 200.5)
                ((example_audit 600.25 (- 0.25) (Some ''value_divergence''))
                   \<lparr>audit_status := ''contested''\<rparr>))
   \<and> contest (audited_db (example_cte ''35856333000100'' 600 200.5)
                (example_audit 600.25 (- 0.25) (Some ''value_divergence''))) 1 Null
       = Inr (audited_db (example_cte ''35856333000100'' 600 200.5)
                ((example_audit 600.25 (- 0.25) (Some ''value_divergence''))
                   \<lparr>audit_status := ''contested''\<rparr>))
   \<and> contest (audited_db (example_cte ''35856333000100'' 600 200.5)
                (example_audit 600.25 (- 0.25) (Some ''value_divergence''))) 1 (JStr [])
       = Inr (audited_db (example_cte ''35856333000100'' 600 200.5)
                ((example_audit 600.25 (- 0.25) (Some ''value_divergence''))
                   \<lparr>audit_status := ''contested'', contestation_reason := SqlText []\<rparr>))"
  by (simp add: contest_def audited_db_def example_audit_def)

text \<open>
  C9. Neither operation reads the status an audit has: whatever it is, waiving sets
  it to \<open>waived\<close>, and contesting with a reason sets it to \<open>contested\<close> and replaces the
  stored reason; waiving a memory calculation sets \<open>ABONADO\<close> whatever its status was.
  So \<open>contested\<close> and \<open>waived\<close> can each be left for the other.
\<close>

theorem contest_and_waive_ignore_the_status:
  "(a \<in> set (audits d) \<and> audit_id a = i \<longrightarrow>
      a\<lparr>audit_status := ''waived''\<rparr> \<in> set (audits (waive_audit d i))
      \<and> (\<exists>d'. contest d i (JStr reason) = Inr d'
            \<and> a\<lparr>audit_status := ''contested'', contestation_reason := SqlText reason\<rparr>
                \<in> set (audits d')))
   \<and> (m \<in> set (memory_calculations d) \<and> mc_id m = j \<longrightarrow>
        m\<lparr>mc_status := ''ABONADO''\<rparr> \<in> set (memory_calculations (waive_memory d j)))"
proof -
  have s: "bind (JStr reason) = Inr (SqlText reason)" by simp
  show ?thesis
    using waive_audit_effect [of a d i] contest_effect [of a d i "JStr reason", OF _ _ s]
      waive_memory_effect [of m d j]
    by blast
qed

theorem contest_and_waive_ignore_the_status_witness:
  "contested_audit \<in> set (audits contested_db) \<and> audit_id contested_audit = 1
   \<and> audit_status contested_audit = ''contested''
   \<and> contested_audit\<lparr>audit_status := ''waived''\<rparr> \<in> set (audits (waive_audit contested_db 1))
   \<and> contested_audit\<lparr>audit_status := ''waived''\<rparr>
       \<in> set (audits (audited_db (example_cte ''35856333000100'' 600 200.5)
                        (contested_audit\<lparr>audit_status := ''waived''\<rparr>)))
   \<and> (\<exists>d'. contest (audited_db (example_cte ''35856333000100'' 600 200.5)
                        (contested_audit\<lparr>audit_status := ''waived''\<rparr>)) 1 (JStr ''outro motivo'')
              = Inr d'
          \<and> contested_audit\<lparr>audit_status := ''contested'',
                             contestation_reason := SqlText ''outro motivo''\<rparr> \<in> set (audits d'))"
proof -
  let ?c = "example_cte ''35856333000100'' 600 200.5"
  let ?w = "contested_audit\<lparr>audit_status := ''waived''\<rparr>"
  have m: "contested_audit \<in> set (audits contested_db)"
    by (simp add: contested_db_def audited_db_def)
  have i: "audit_id contested_audit = 1"
    by (simp add: contested_audit_def example_audit_def)
  have s: "audit_status contested_audit = ''contested''"
    by (simp add: contested_audit_def)
  have w: "?w \<in> set (audits (waive_audit contested_db 1))"
    using contest_and_waive_ignore_the_status [where a = contested_audit and d = contested_db
        and i = 1] m i
    by blast
  have m': "?w \<in> set (audits (audited_db ?c ?w))"
    by (simp add: audited_db_def)
  have i': "audit_id ?w = 1"
    by (simp add: i)
  have "\<exists>d'. contest (audited_db ?c ?w) 1 (JStr ''outro motivo'') = Inr d'
          \<and> ?w\<lparr>audit_status := ''contested'', contestation_reason := SqlText ''outro motivo''\<rparr>
              \<in> set (audits d')"
    using contest_and_waive_ignore_the_status [where a = ?w and d = "audited_db ?c ?w"
        and i = 1 and reason = "''outro motivo''"] m' i'
    by blast
  with m i s w m' show ?thesis
    by simp
qed

end
